theory Spec2Isabelle
  imports Main
begin

section \<open>Signal processors of django-elasticsearch-dsl (signals.py)\<close>

text \<open>
  The module attaches the document registry to Django's model signals. It holds three
  processor classes (\<open>BaseSignalProcessor\<close>, \<open>RealTimeSignalProcessor\<close>,
  \<open>CelerySignalProcessor\<close>) and the mixin \<open>DjangoSignalsMixin\<close>. Everything the
  handlers do is an effect on a collaborator: a call on the registry (the search index),
  a \<open>connect\<close>/\<open>disconnect\<close> on a Django signal, or a \<open>.delay\<close> on a Celery task.
  The embedding threads an explicit world through every method; a Python exception is
  the result \<open>Raises\<close>, which keeps the world as it was when the exception left the
  method (effects before a raise are not undone).
\<close>

subsection \<open>Model instances\<close>

text \<open>
  The attributes of a Django model instance the module reads: \<open>instance.pk\<close>,
  \<open>instance._meta.app_label\<close>, \<open>instance._meta.concrete_model\<close> and the class's
  \<open>__name__\<close>.
\<close>

record model_class =
  cls_module :: string
  cls_name :: string

record options =
  app_label :: string
  concrete_model :: model_class

record model_instance =
  pk :: int
  meta :: options

subsection \<open>Exceptions and results\<close>

datatype error =
    LookupError
  | DoesNotExist
  | AttributeError
  | TypeError
  | IndexFailure string
  | OperationalError string

datatype ('a, 'w) result = Returns 'a 'w | Raises error 'w

fun world_of :: "('a, 'w) result \<Rightarrow> 'w" where
  "world_of (Returns a w) = w"
| "world_of (Raises e w) = w"

fun raised :: "('a, 'w) result \<Rightarrow> error option" where
  "raised (Returns a w) = None"
| "raised (Raises e w) = Some e"

text \<open>Two statements in sequence: the second runs only when the first returned.\<close>

fun seq :: "('a, 'w) result \<Rightarrow> ('w \<Rightarrow> ('b, 'w) result) \<Rightarrow> ('b, 'w) result" where
  "seq (Returns a w) f = f w"
| "seq (Raises e w) f = Raises e w"

subsection \<open>Classes and attribute lookup\<close>

text \<open>
  The four classes of the module, the attributes each class body defines, and the bases
  of each class statement. Every base here derives from \<open>object\<close> alone, so the method
  resolution order of a class is the class followed by its bases, left to right.
\<close>

datatype py_class =
    BaseSignalProcessor
  | DjangoSignalsMixin
  | RealTimeSignalProcessor
  | CelerySignalProcessor

datatype attr =
    A_init
  | A_setup
  | A_teardown
  | A_handle_m2m_changed
  | A_handle_save
  | A_handle_pre_delete
  | A_handle_delete
  | A_registry_update_task
  | A_registry_update_related_task

fun bases :: "py_class \<Rightarrow> py_class list" where
  "bases BaseSignalProcessor = []"
| "bases DjangoSignalsMixin = []"
| "bases RealTimeSignalProcessor = [DjangoSignalsMixin, BaseSignalProcessor]"
| "bases CelerySignalProcessor = [DjangoSignalsMixin, BaseSignalProcessor]"

fun class_dict :: "py_class \<Rightarrow> attr list" where
  "class_dict BaseSignalProcessor =
     [A_init, A_setup, A_teardown, A_handle_m2m_changed, A_handle_save,
      A_handle_pre_delete, A_handle_delete]"
| "class_dict DjangoSignalsMixin = [A_setup, A_teardown]"
| "class_dict RealTimeSignalProcessor = []"
| "class_dict CelerySignalProcessor =
     [A_handle_save, A_registry_update_task, A_registry_update_related_task]"

definition mro :: "py_class \<Rightarrow> py_class list" where
  "mro k = k # bases k"

text \<open>\<open>resolve k a\<close>: the class whose body supplies attribute \<open>a\<close> to an instance of \<open>k\<close>.\<close>

definition resolve :: "py_class \<Rightarrow> attr \<Rightarrow> py_class option" where
  "resolve k a = find (\<lambda>c. a \<in> set (class_dict c)) (mro k)"

text \<open>
  A processor object: its class and the \<open>connections\<close> attribute (\<open>None\<close> until
  \<open>__init__\<close> assigns it). A bound method is the object together with the function
  found by attribute lookup.
\<close>

record 'c processor =
  cls :: py_class
  connections :: "'c option"

type_synonym 'c bound_method = "'c processor \<times> py_class \<times> attr"

subsection \<open>The world: index, signals and task queue\<close>

datatype index_call =
    Update model_instance
  | UpdateRelated model_instance
  | DeleteRelated model_instance
  | Delete model_instance bool

datatype signal = post_save | post_delete | m2m_changed | pre_delete

datatype 'c signal_call =
    Connect signal "'c bound_method"
  | Disconnect signal "'c bound_method"

text \<open>A task sent with \<open>.delay(pk, app_label, model_name)\<close>.\<close>

datatype delayed = Delay attr int string string

record ('i, 'c) world =
  index :: 'i
  index_calls :: "index_call list"
  signal_calls :: "'c signal_call list"
  task_queue :: "delayed list"

text \<open>
  The collaborators the module imports, as parameters: the registry
  (\<open>registries.registry\<close>), Django's app registry (\<open>apps.get_model\<close>) and the model
  managers (\<open>model.objects.get\<close>). A registry operation takes the index to its next
  state and may raise; \<open>index_delete\<close> is the deletion the registry performs on the
  index for an instance. \<open>task_send\<close> is the message broker behind Celery's
  \<open>.delay\<close>: given the task and what is already queued, it accepts the task (\<open>None\<close>)
  or the call raises (for instance when the broker cannot be reached).
\<close>

record 'i environment =
  registry_contains :: "model_class \<Rightarrow> bool"
  registry_update :: "model_instance \<Rightarrow> 'i \<Rightarrow> 'i \<times> error option"
  registry_update_related :: "model_instance \<Rightarrow> 'i \<Rightarrow> 'i \<times> error option"
  registry_delete_related :: "model_instance \<Rightarrow> 'i \<Rightarrow> 'i \<times> error option"
  index_delete :: "model_instance \<Rightarrow> 'i \<Rightarrow> 'i \<times> error option"
  get_model :: "string \<Rightarrow> string \<Rightarrow> error + model_class"
  objects_get :: "model_class \<Rightarrow> int \<Rightarrow> error + model_instance"
  task_send :: "delayed \<Rightarrow> delayed list \<Rightarrow> error option"

text \<open>
  Modelled from the spec: \<open>registry.delete(instance, raise_on_error)\<close>; the module
  \<open>registries.py\<close> is not among the source files. The spec says of the call with
  \<open>raise_on_error=False\<close> that it "deliberately suppresses index errors on delete" and
  that an index write failure on delete is "suppressed (raise_on_error=False)": the
  deletion is attempted on the index and its failure is reported only when
  \<open>raise_on_error\<close> is set.
\<close>

definition registry_delete ::
  "'i environment \<Rightarrow> model_instance \<Rightarrow> bool \<Rightarrow> 'i \<Rightarrow> 'i \<times> error option" where
  "registry_delete E inst raise_on_error i =
     (case index_delete E inst i of
        (i', e) \<Rightarrow> (i', if raise_on_error then e else None))"

text \<open>One call on the registry: it is logged, the index moves, the error (if any) leaves.\<close>

definition registry_op ::
  "index_call \<Rightarrow> ('i \<Rightarrow> 'i \<times> error option) \<Rightarrow> ('i, 'c) world
     \<Rightarrow> (unit, ('i, 'c) world) result" where
  "registry_op c f w =
     (case f (index w) of
        (i', e) \<Rightarrow>
          (case e of
             None \<Rightarrow> Returns () (w\<lparr>index := i', index_calls := index_calls w @ [c]\<rparr>)
           | Some err \<Rightarrow> Raises err (w\<lparr>index := i', index_calls := index_calls w @ [c]\<rparr>)))"

subsection \<open>BaseSignalProcessor\<close>

definition base_setup ::
  "'c processor \<Rightarrow> ('i, 'c) world \<Rightarrow> (unit, ('i, 'c) world) result" where
  "base_setup self w = Returns () w"

definition base_teardown ::
  "'c processor \<Rightarrow> ('i, 'c) world \<Rightarrow> (unit, ('i, 'c) world) result" where
  "base_teardown self w = Returns () w"

definition base_handle_save ::
  "'i environment \<Rightarrow> 'c processor \<Rightarrow> model_class \<Rightarrow> model_instance \<Rightarrow> ('i, 'c) world
     \<Rightarrow> (unit, ('i, 'c) world) result" where
  "base_handle_save E self sender inst w =
     seq (registry_op (Update inst) (registry_update E inst) w)
         (registry_op (UpdateRelated inst) (registry_update_related E inst))"

definition base_handle_pre_delete ::
  "'i environment \<Rightarrow> 'c processor \<Rightarrow> model_class \<Rightarrow> model_instance \<Rightarrow> ('i, 'c) world
     \<Rightarrow> (unit, ('i, 'c) world) result" where
  "base_handle_pre_delete E self sender inst w =
     registry_op (DeleteRelated inst) (registry_delete_related E inst) w"

definition base_handle_delete ::
  "'i environment \<Rightarrow> 'c processor \<Rightarrow> model_class \<Rightarrow> model_instance \<Rightarrow> ('i, 'c) world
     \<Rightarrow> (unit, ('i, 'c) world) result" where
  "base_handle_delete E self sender inst w =
     registry_op (Delete inst False) (registry_delete E inst False) w"

subsection \<open>CelerySignalProcessor\<close>

text \<open>
  \<open>self.task.delay(pk, app_label, model_name)\<close>: the task attribute is looked up on the
  object, then the call is handed to the broker. When the broker accepts it the task is
  on the queue; when the call raises, nothing was queued and the error leaves \<open>.delay\<close>
  (the handler has no \<open>try\<close> around it).
\<close>

definition delay ::
  "'i environment \<Rightarrow> 'c processor \<Rightarrow> attr \<Rightarrow> int \<Rightarrow> string \<Rightarrow> string \<Rightarrow> ('i, 'c) world
     \<Rightarrow> (unit, ('i, 'c) world) result" where
  "delay E self task p al mn w =
     (case resolve (cls self) task of
        None \<Rightarrow> Raises AttributeError w
      | Some k \<Rightarrow>
          (case task_send E (Delay task p al mn) (task_queue w) of
             None \<Rightarrow> Returns () (w\<lparr>task_queue := task_queue w @ [Delay task p al mn]\<rparr>)
           | Some err \<Rightarrow> Raises err w))"

definition celery_handle_save ::
  "'i environment \<Rightarrow> 'c processor \<Rightarrow> model_class \<Rightarrow> model_instance \<Rightarrow> ('i, 'c) world
     \<Rightarrow> (unit, ('i, 'c) world) result" where
  "celery_handle_save E self sender inst w =
     (let pk' = pk inst;
          app_label' = app_label (meta inst);
          model_name = cls_name (concrete_model (meta inst))
      in if \<not> registry_contains E (concrete_model (meta inst))
         then seq (delay E self A_registry_update_task pk' app_label' model_name w)
                  (delay E self A_registry_update_related_task pk' app_label' model_name)
         else Returns () w)"

text \<open>
  The two shared tasks. \<open>try ... except LookupError: pass ... else\<close>: only a
  \<open>LookupError\<close> of \<open>apps.get_model\<close> is caught; the \<open>else\<close> branch runs outside the
  handler, so whatever \<open>model.objects.get\<close> or the registry raises leaves the task.
\<close>

definition registry_update_task ::
  "'i environment \<Rightarrow> int \<Rightarrow> string \<Rightarrow> string \<Rightarrow> ('i, 'c) world
     \<Rightarrow> (unit, ('i, 'c) world) result" where
  "registry_update_task E p al mn w =
     (case get_model E al mn of
        Inl e \<Rightarrow> (if e = LookupError then Returns () w else Raises e w)
      | Inr model \<Rightarrow>
          (case objects_get E model p of
             Inl e \<Rightarrow> Raises e w
           | Inr obj \<Rightarrow> registry_op (Update obj) (registry_update E obj) w))"

definition registry_update_related_task ::
  "'i environment \<Rightarrow> int \<Rightarrow> string \<Rightarrow> string \<Rightarrow> ('i, 'c) world
     \<Rightarrow> (unit, ('i, 'c) world) result" where
  "registry_update_related_task E p al mn w =
     (case get_model E al mn of
        Inl e \<Rightarrow> (if e = LookupError then Returns () w else Raises e w)
      | Inr model \<Rightarrow>
          (case objects_get E model p of
             Inl e \<Rightarrow> Raises e w
           | Inr obj \<Rightarrow> registry_op (UpdateRelated obj) (registry_update_related E obj) w))"

subsection \<open>Method calls on \<open>self\<close>\<close>

text \<open>
  \<open>self.handle_save(...)\<close> and its like: the attribute is resolved along the method
  resolution order of the object's class and the function found there is run.
\<close>

definition call_handle_save ::
  "'i environment \<Rightarrow> 'c processor \<Rightarrow> model_class \<Rightarrow> model_instance \<Rightarrow> ('i, 'c) world
     \<Rightarrow> (unit, ('i, 'c) world) result" where
  "call_handle_save E self sender inst w =
     (case resolve (cls self) A_handle_save of
        Some CelerySignalProcessor \<Rightarrow> celery_handle_save E self sender inst w
      | Some BaseSignalProcessor \<Rightarrow> base_handle_save E self sender inst w
      | _ \<Rightarrow> Raises AttributeError w)"

definition call_handle_pre_delete ::
  "'i environment \<Rightarrow> 'c processor \<Rightarrow> model_class \<Rightarrow> model_instance \<Rightarrow> ('i, 'c) world
     \<Rightarrow> (unit, ('i, 'c) world) result" where
  "call_handle_pre_delete E self sender inst w =
     (case resolve (cls self) A_handle_pre_delete of
        Some BaseSignalProcessor \<Rightarrow> base_handle_pre_delete E self sender inst w
      | _ \<Rightarrow> Raises AttributeError w)"

definition call_handle_delete ::
  "'i environment \<Rightarrow> 'c processor \<Rightarrow> model_class \<Rightarrow> model_instance \<Rightarrow> ('i, 'c) world
     \<Rightarrow> (unit, ('i, 'c) world) result" where
  "call_handle_delete E self sender inst w =
     (case resolve (cls self) A_handle_delete of
        Some BaseSignalProcessor \<Rightarrow> base_handle_delete E self sender inst w
      | _ \<Rightarrow> Raises AttributeError w)"

definition base_handle_m2m_changed ::
  "'i environment \<Rightarrow> 'c processor \<Rightarrow> model_class \<Rightarrow> model_instance \<Rightarrow> string
     \<Rightarrow> ('i, 'c) world \<Rightarrow> (unit, ('i, 'c) world) result" where
  "base_handle_m2m_changed E self sender inst action w =
     (if action \<in> set [''post_add'', ''post_remove'', ''post_clear'']
      then call_handle_save E self sender inst w
      else if action \<in> set [''pre_remove'', ''pre_clear'']
      then call_handle_pre_delete E self sender inst w
      else Returns () w)"

definition call_handle_m2m_changed ::
  "'i environment \<Rightarrow> 'c processor \<Rightarrow> model_class \<Rightarrow> model_instance \<Rightarrow> string
     \<Rightarrow> ('i, 'c) world \<Rightarrow> (unit, ('i, 'c) world) result" where
  "call_handle_m2m_changed E self sender inst action w =
     (case resolve (cls self) A_handle_m2m_changed of
        Some BaseSignalProcessor \<Rightarrow> base_handle_m2m_changed E self sender inst action w
      | _ \<Rightarrow> Raises AttributeError w)"

subsection \<open>DjangoSignalsMixin\<close>

text \<open>
  \<open>signal.connect(self.handler)\<close>: the bound method is read from the object first (an
  \<open>AttributeError\<close> when no class supplies it), then handed to the signal. What the
  signal does with it (Django's receiver list) is outside the module: the world records
  the calls in order.
\<close>

definition signal_connect ::
  "signal \<Rightarrow> 'c processor \<Rightarrow> attr \<Rightarrow> ('i, 'c) world \<Rightarrow> (unit, ('i, 'c) world) result" where
  "signal_connect s self a w =
     (case resolve (cls self) a of
        None \<Rightarrow> Raises AttributeError w
      | Some k \<Rightarrow> Returns () (w\<lparr>signal_calls := signal_calls w @ [Connect s (self, k, a)]\<rparr>))"

definition signal_disconnect ::
  "signal \<Rightarrow> 'c processor \<Rightarrow> attr \<Rightarrow> ('i, 'c) world \<Rightarrow> (unit, ('i, 'c) world) result" where
  "signal_disconnect s self a w =
     (case resolve (cls self) a of
        None \<Rightarrow> Raises AttributeError w
      | Some k \<Rightarrow>
          Returns () (w\<lparr>signal_calls := signal_calls w @ [Disconnect s (self, k, a)]\<rparr>))"

definition mixin_setup ::
  "'c processor \<Rightarrow> ('i, 'c) world \<Rightarrow> (unit, ('i, 'c) world) result" where
  "mixin_setup self w =
     seq (seq (seq (signal_connect post_save self A_handle_save w)
                   (signal_connect post_delete self A_handle_delete))
              (signal_connect m2m_changed self A_handle_m2m_changed))
         (signal_connect pre_delete self A_handle_pre_delete)"

definition mixin_teardown ::
  "'c processor \<Rightarrow> ('i, 'c) world \<Rightarrow> (unit, ('i, 'c) world) result" where
  "mixin_teardown self w =
     seq (seq (seq (signal_disconnect post_save self A_handle_save w)
                   (signal_disconnect post_delete self A_handle_delete))
              (signal_disconnect m2m_changed self A_handle_m2m_changed))
         (signal_disconnect pre_delete self A_handle_pre_delete)"

definition call_setup ::
  "'c processor \<Rightarrow> ('i, 'c) world \<Rightarrow> (unit, ('i, 'c) world) result" where
  "call_setup self w =
     (case resolve (cls self) A_setup of
        Some DjangoSignalsMixin \<Rightarrow> mixin_setup self w
      | Some BaseSignalProcessor \<Rightarrow> base_setup self w
      | _ \<Rightarrow> Raises AttributeError w)"

definition call_teardown ::
  "'c processor \<Rightarrow> ('i, 'c) world \<Rightarrow> (unit, ('i, 'c) world) result" where
  "call_teardown self w =
     (case resolve (cls self) A_teardown of
        Some DjangoSignalsMixin \<Rightarrow> mixin_teardown self w
      | Some BaseSignalProcessor \<Rightarrow> base_teardown self w
      | _ \<Rightarrow> Raises AttributeError w)"

subsection \<open>Construction\<close>

text \<open>
  \<open>__init__(self, connections)\<close> of the base class stores the argument and calls
  \<open>self.setup()\<close>. \<open>construct k c\<close> is the call \<open>k(c)\<close>: a fresh object of class \<open>k\<close>
  is initialised by the \<open>__init__\<close> its class resolves; a class that resolves none
  falls back on \<open>object.__init__\<close>, which rejects the argument.
\<close>

definition base_init ::
  "'c processor \<Rightarrow> 'c \<Rightarrow> ('i, 'c) world \<Rightarrow> ('c processor, ('i, 'c) world) result" where
  "base_init self conns w =
     (let self' = self\<lparr>connections := Some conns\<rparr>
      in case call_setup self' w of
           Returns u w' \<Rightarrow> Returns self' w'
         | Raises e w' \<Rightarrow> Raises e w')"

definition construct ::
  "py_class \<Rightarrow> 'c \<Rightarrow> ('i, 'c) world \<Rightarrow> ('c processor, ('i, 'c) world) result" where
  "construct k conns w =
     (case resolve k A_init of
        Some BaseSignalProcessor \<Rightarrow> base_init \<lparr>cls = k, connections = None\<rparr> conns w
      | _ \<Rightarrow> Raises TypeError w)"

subsection \<open>Observations and sample data\<close>

text \<open>
  The attributes a class body redefines although a base already supplies them, and the
  (signal, receiver) pairs a log of signal calls connects and disconnects.
\<close>

definition overridden :: "py_class \<Rightarrow> attr list" where
  "overridden k =
     filter (\<lambda>a. find (\<lambda>c. a \<in> set (class_dict c)) (bases k) \<noteq> None) (class_dict k)"

fun connects :: "'c signal_call list \<Rightarrow> (signal \<times> 'c bound_method) list" where
  "connects [] = []"
| "connects (Connect s r # cs) = (s, r) # connects cs"
| "connects (Disconnect s r # cs) = connects cs"

fun disconnects :: "'c signal_call list \<Rightarrow> (signal \<times> 'c bound_method) list" where
  "disconnects [] = []"
| "disconnects (Connect s r # cs) = disconnects cs"
| "disconnects (Disconnect s r # cs) = (s, r) # disconnects cs"

text \<open>
  A small project for concrete runs: one app \<open>shop\<close> with one model \<open>Product\<close>, one
  stored row with primary key 7, and an index that counts the operations it accepted.
  In \<open>shop_env\<close> no model is registered, every index operation succeeds except the
  deletion, which fails, and the broker accepts every task; the variants register the
  model, make updates fail, or have a broker that cannot be reached, or one that takes
  a single task and then fails.
\<close>

definition product_class :: model_class where
  "product_class = \<lparr>cls_module = ''shop.models'', cls_name = ''Product''\<rparr>"

definition product_7 :: model_instance where
  "product_7 = \<lparr>pk = 7, meta = \<lparr>app_label = ''shop'', concrete_model = product_class\<rparr>\<rparr>"

definition shop_env :: "nat environment" where
  "shop_env =
     \<lparr>registry_contains = (\<lambda>m. False),
      registry_update = (\<lambda>inst i. (Suc i, None)),
      registry_update_related = (\<lambda>inst i. (Suc i, None)),
      registry_delete_related = (\<lambda>inst i. (Suc i, None)),
      index_delete = (\<lambda>inst i. (i, Some (IndexFailure ''not found''))),
      get_model = (\<lambda>al mn. if al = ''shop'' \<and> mn = ''Product''
                             then Inr product_class else Inl LookupError),
      objects_get = (\<lambda>m p. if m = product_class \<and> p = 7
                               then Inr product_7 else Inl DoesNotExist),
      task_send = (\<lambda>t q. None)\<rparr>"

definition registered_env :: "nat environment" where
  "registered_env = shop_env\<lparr>registry_contains := (\<lambda>m. m = product_class)\<rparr>"

definition failing_update_env :: "nat environment" where
  "failing_update_env =
     shop_env\<lparr>registry_update := (\<lambda>inst i. (i, Some (IndexFailure ''unavailable'')))\<rparr>"

definition broker_down_env :: "nat environment" where
  "broker_down_env =
     shop_env\<lparr>task_send := (\<lambda>t q. Some (OperationalError ''broker unreachable''))\<rparr>"

definition broker_lost_env :: "nat environment" where
  "broker_lost_env =
     shop_env\<lparr>task_send :=
       (\<lambda>t q. if q = [] then None else Some (OperationalError ''connection lost''))\<rparr>"

definition empty_world :: "(nat, string) world" where
  "empty_world = \<lparr>index = 0, index_calls = [], signal_calls = [], task_queue = []\<rparr>"

definition celery_processor :: "string processor" where
  "celery_processor = \<lparr>cls = CelerySignalProcessor, connections = Some ''default''\<rparr>"

definition realtime_processor :: "string processor" where
  "realtime_processor = \<lparr>cls = RealTimeSignalProcessor, connections = Some ''default''\<rparr>"

section \<open>Attribute lookup on the three processor classes\<close>

lemma resolve_base:
  "resolve BaseSignalProcessor A_init = Some BaseSignalProcessor"
  "resolve BaseSignalProcessor A_setup = Some BaseSignalProcessor"
  "resolve BaseSignalProcessor A_teardown = Some BaseSignalProcessor"
  "resolve BaseSignalProcessor A_handle_m2m_changed = Some BaseSignalProcessor"
  "resolve BaseSignalProcessor A_handle_save = Some BaseSignalProcessor"
  "resolve BaseSignalProcessor A_handle_pre_delete = Some BaseSignalProcessor"
  "resolve BaseSignalProcessor A_handle_delete = Some BaseSignalProcessor"
  "resolve BaseSignalProcessor A_registry_update_task = None"
  "resolve BaseSignalProcessor A_registry_update_related_task = None"
  by (simp_all add: resolve_def mro_def)

lemma resolve_realtime:
  "resolve RealTimeSignalProcessor A_init = Some BaseSignalProcessor"
  "resolve RealTimeSignalProcessor A_setup = Some DjangoSignalsMixin"
  "resolve RealTimeSignalProcessor A_teardown = Some DjangoSignalsMixin"
  "resolve RealTimeSignalProcessor A_handle_m2m_changed = Some BaseSignalProcessor"
  "resolve RealTimeSignalProcessor A_handle_save = Some BaseSignalProcessor"
  "resolve RealTimeSignalProcessor A_handle_pre_delete = Some BaseSignalProcessor"
  "resolve RealTimeSignalProcessor A_handle_delete = Some BaseSignalProcessor"
  "resolve RealTimeSignalProcessor A_registry_update_task = None"
  "resolve RealTimeSignalProcessor A_registry_update_related_task = None"
  by (simp_all add: resolve_def mro_def)

lemma resolve_celery:
  "resolve CelerySignalProcessor A_init = Some BaseSignalProcessor"
  "resolve CelerySignalProcessor A_setup = Some DjangoSignalsMixin"
  "resolve CelerySignalProcessor A_teardown = Some DjangoSignalsMixin"
  "resolve CelerySignalProcessor A_handle_m2m_changed = Some BaseSignalProcessor"
  "resolve CelerySignalProcessor A_handle_save = Some CelerySignalProcessor"
  "resolve CelerySignalProcessor A_handle_pre_delete = Some BaseSignalProcessor"
  "resolve CelerySignalProcessor A_handle_delete = Some BaseSignalProcessor"
  "resolve CelerySignalProcessor A_registry_update_task = Some CelerySignalProcessor"
  "resolve CelerySignalProcessor A_registry_update_related_task = Some CelerySignalProcessor"
  by (simp_all add: resolve_def mro_def)

text \<open>What one registry call leaves behind, whether it returned or raised.\<close>

lemma registry_op_world:
  "index_calls (world_of (registry_op c f w)) = index_calls w @ [c]"
  "task_queue (world_of (registry_op c f w)) = task_queue w"
  "signal_calls (world_of (registry_op c f w)) = signal_calls w"
  "index (world_of (registry_op c f w)) = fst (f (index w))"
  "raised (registry_op c f w) = snd (f (index w))"
  by (simp_all add: registry_op_def split: prod.splits option.splits)

section \<open>The save handler of CelerySignalProcessor\<close>

text \<open>
  Claim C1, as stated, at a model that is not in the registry while the broker cannot
  be reached: the first \<open>.delay\<close> raises, the error leaves the handler and no task is
  queued (the claim has exactly two tasks enqueued for every such instance). With a
  broker that fails after one task, one task is queued.
\<close>

theorem celery_handle_save_broker_down:
  "\<not> registry_contains broker_down_env (concrete_model (meta product_7))
   \<and> celery_handle_save broker_down_env celery_processor product_class product_7 empty_world =
       Raises (OperationalError ''broker unreachable'') empty_world
   \<and> task_queue (world_of (celery_handle_save broker_down_env celery_processor product_class
        product_7 empty_world)) = []
   \<and> celery_handle_save broker_lost_env celery_processor product_class product_7 empty_world =
       Raises (OperationalError ''connection lost'')
         (empty_world\<lparr>task_queue := [Delay A_registry_update_task 7 ''shop'' ''Product'']\<rparr>)"
  by (simp add: celery_handle_save_def delay_def resolve_celery celery_processor_def
      broker_down_env_def broker_lost_env_def shop_env_def product_7_def product_class_def
      empty_world_def)

text \<open>
  Claim C1, amended. When the instance's concrete model is in the registry, the save
  handler of the Celery processor returns with the world unchanged: no task is queued
  and no index operation is made. When it is not, the handler sends
  \<open>registry_update_task\<close> and then \<open>registry_update_related_task\<close>, each carrying the
  primary key, the app label and the concrete model's name (and nothing else of the
  instance): exactly these two tasks are queued when both sends are accepted. A send
  that raises is not caught: its error leaves the handler, with nothing queued when it
  is the first send and only \<open>registry_update_task\<close> queued when it is the second. In
  every case the index is untouched.
\<close>

theorem celery_handle_save_enqueues:
  "celery_handle_save E \<lparr>cls = CelerySignalProcessor, connections = c\<rparr> sender inst w =
     (if registry_contains E (concrete_model (meta inst))
      then Returns () w
      else case task_send E
                  (Delay A_registry_update_task (pk inst) (app_label (meta inst))
                     (cls_name (concrete_model (meta inst))))
                  (task_queue w) of
             Some e \<Rightarrow> Raises e w
           | None \<Rightarrow>
               (case task_send E
                       (Delay A_registry_update_related_task (pk inst) (app_label (meta inst))
                          (cls_name (concrete_model (meta inst))))
                       (task_queue w @
                          [Delay A_registry_update_task (pk inst) (app_label (meta inst))
                             (cls_name (concrete_model (meta inst)))]) of
                  Some e \<Rightarrow>
                    Raises e
                      (w\<lparr>task_queue := task_queue w @
                           [Delay A_registry_update_task (pk inst) (app_label (meta inst))
                              (cls_name (concrete_model (meta inst)))]\<rparr>)
                | None \<Rightarrow>
                    Returns ()
                      (w\<lparr>task_queue := task_queue w @
                           [Delay A_registry_update_task (pk inst) (app_label (meta inst))
                              (cls_name (concrete_model (meta inst))),
                            Delay A_registry_update_related_task (pk inst)
                              (app_label (meta inst))
                              (cls_name (concrete_model (meta inst)))]\<rparr>)))
   \<and> index_calls (world_of (celery_handle_save E
         \<lparr>cls = CelerySignalProcessor, connections = c\<rparr> sender inst w)) = index_calls w
   \<and> index (world_of (celery_handle_save E
         \<lparr>cls = CelerySignalProcessor, connections = c\<rparr> sender inst w)) = index w"
  by (simp add: celery_handle_save_def delay_def resolve_celery Let_def split: option.splits)

text \<open>
  In the sample project: with a broker that accepts, an unregistered model gets exactly
  the two tasks; a registered model gets none.
\<close>

theorem celery_handle_save_enqueues_witness:
  "celery_handle_save shop_env celery_processor product_class product_7 empty_world =
     Returns () (empty_world\<lparr>task_queue :=
       [Delay A_registry_update_task 7 ''shop'' ''Product'',
        Delay A_registry_update_related_task 7 ''shop'' ''Product'']\<rparr>)
   \<and> celery_handle_save registered_env celery_processor product_class product_7 empty_world =
     Returns () empty_world"
  using celery_handle_save_enqueues [of shop_env "Some ''default''" product_class product_7
      empty_world]
    celery_handle_save_enqueues [of registered_env "Some ''default''" product_class product_7
      empty_world]
  by (simp add: celery_processor_def registered_env_def shop_env_def product_7_def
      product_class_def empty_world_def)

section \<open>Deletes on the Celery processor\<close>

text \<open>
  Claim C2. Of the attributes its bases supply, the Celery processor's class body
  redefines \<open>handle_save\<close> only. Its \<open>handle_delete\<close> and \<open>handle_pre_delete\<close>
  resolve to the same functions as on the base class, and running them on a Celery
  processor is running the base handlers: the registry is called inline (\<open>delete\<close> with
  \<open>raise_on_error=False\<close>, respectively \<open>delete_related\<close>) and the task queue is left
  as it was, whatever the registry does.
\<close>

theorem celery_deletes_inline:
  "overridden CelerySignalProcessor = [A_handle_save]
   \<and> resolve CelerySignalProcessor A_handle_delete = resolve BaseSignalProcessor A_handle_delete
   \<and> resolve CelerySignalProcessor A_handle_pre_delete =
       resolve BaseSignalProcessor A_handle_pre_delete
   \<and> call_handle_delete E \<lparr>cls = CelerySignalProcessor, connections = c\<rparr> sender inst w =
       base_handle_delete E \<lparr>cls = CelerySignalProcessor, connections = c\<rparr> sender inst w
   \<and> call_handle_pre_delete E \<lparr>cls = CelerySignalProcessor, connections = c\<rparr> sender inst w =
       base_handle_pre_delete E \<lparr>cls = CelerySignalProcessor, connections = c\<rparr> sender inst w
   \<and> task_queue (world_of (call_handle_delete E
         \<lparr>cls = CelerySignalProcessor, connections = c\<rparr> sender inst w)) = task_queue w
   \<and> task_queue (world_of (call_handle_pre_delete E
         \<lparr>cls = CelerySignalProcessor, connections = c\<rparr> sender inst w)) = task_queue w
   \<and> index_calls (world_of (call_handle_delete E
         \<lparr>cls = CelerySignalProcessor, connections = c\<rparr> sender inst w)) =
       index_calls w @ [Delete inst False]
   \<and> index_calls (world_of (call_handle_pre_delete E
         \<lparr>cls = CelerySignalProcessor, connections = c\<rparr> sender inst w)) =
       index_calls w @ [DeleteRelated inst]"
  by (simp add: overridden_def call_handle_delete_def call_handle_pre_delete_def
      resolve_celery resolve_base base_handle_delete_def base_handle_pre_delete_def
      registry_op_world)

section \<open>Relation changes\<close>

text \<open>
  Claim C3. \<open>handle_m2m_changed\<close> forwards by action: for \<open>post_add\<close>, \<open>post_remove\<close>
  and \<open>post_clear\<close> it is the call \<open>self.handle_save(sender, instance)\<close>, for
  \<open>pre_remove\<close> and \<open>pre_clear\<close> it is the call \<open>self.handle_pre_delete(sender,
  instance)\<close>, on the same processor, sender and instance.
\<close>

theorem m2m_changed_forwards:
  "base_handle_m2m_changed E self sender inst ''post_add'' w =
     call_handle_save E self sender inst w
   \<and> base_handle_m2m_changed E self sender inst ''post_remove'' w =
     call_handle_save E self sender inst w
   \<and> base_handle_m2m_changed E self sender inst ''post_clear'' w =
     call_handle_save E self sender inst w
   \<and> base_handle_m2m_changed E self sender inst ''pre_remove'' w =
     call_handle_pre_delete E self sender inst w
   \<and> base_handle_m2m_changed E self sender inst ''pre_clear'' w =
     call_handle_pre_delete E self sender inst w"
  by (simp add: base_handle_m2m_changed_def)

text \<open>
  Claim C10. For an action that is none of the five recognised ones,
  \<open>handle_m2m_changed\<close> returns normally with the world unchanged: no index operation,
  the same index state, nothing queued. The same holds when the method is reached
  through a processor of any of the three classes.
\<close>

theorem m2m_changed_other_action:
  "action \<notin> set [''post_add'', ''post_remove'', ''post_clear'', ''pre_remove'', ''pre_clear'']
   \<Longrightarrow> base_handle_m2m_changed E self sender inst action w = Returns () w
       \<and> call_handle_m2m_changed E \<lparr>cls = BaseSignalProcessor, connections = c\<rparr>
           sender inst action w = Returns () w
       \<and> call_handle_m2m_changed E \<lparr>cls = RealTimeSignalProcessor, connections = c\<rparr>
           sender inst action w = Returns () w
       \<and> call_handle_m2m_changed E \<lparr>cls = CelerySignalProcessor, connections = c\<rparr>
           sender inst action w = Returns () w"
  by (simp add: base_handle_m2m_changed_def call_handle_m2m_changed_def
      resolve_base resolve_realtime resolve_celery)

text \<open>The action \<open>pre_add\<close> is such an action; the Celery processor ignores it.\<close>

theorem m2m_changed_other_action_witness:
  "''pre_add'' \<notin> set [''post_add'', ''post_remove'', ''post_clear'', ''pre_remove'', ''pre_clear'']
   \<and> base_handle_m2m_changed shop_env celery_processor product_class product_7 ''pre_add''
        empty_world = Returns () empty_world
   \<and> call_handle_m2m_changed shop_env celery_processor product_class product_7 ''pre_add''
        empty_world = Returns () empty_world"
  using m2m_changed_other_action [of "''pre_add''" shop_env celery_processor product_class
      product_7 empty_world "Some ''default''"]
  by (simp add: celery_processor_def)

section \<open>The delete handler\<close>

text \<open>
  Claim C4. \<open>handle_delete\<close> makes one registry call, \<open>delete\<close> on the given instance
  with \<open>raise_on_error=False\<close>, and returns normally whatever the deletion on the index
  does: also when the index reports a failure, no error leaves the handler. (The
  handler has no error handling of its own; that nothing is raised is the behaviour of
  \<open>registry.delete\<close> under \<open>raise_on_error=False\<close>, taken from the spec.)
\<close>

theorem handle_delete_suppresses:
  "base_handle_delete E self sender inst w =
     Returns () (w\<lparr>index := fst (index_delete E inst (index w)),
                   index_calls := index_calls w @ [Delete inst False]\<rparr>)"
  by (simp add: base_handle_delete_def registry_op_def registry_delete_def split: prod.splits)

text \<open>A run where the deletion fails on the index: the handler returns all the same.\<close>

theorem handle_delete_failure_example:
  "index_delete shop_env product_7 (index empty_world) = (0, Some (IndexFailure ''not found''))
   \<and> base_handle_delete shop_env realtime_processor product_class product_7 empty_world =
       Returns () (empty_world\<lparr>index_calls := [Delete product_7 False]\<rparr>)"
  using handle_delete_suppresses [of shop_env realtime_processor product_class product_7 empty_world]
  by (simp add: shop_env_def empty_world_def)

section \<open>The deferred tasks\<close>

text \<open>
  Claim C5. Run with a primary key, an app label and a model name, each of the two
  tasks (\<open>registry_update_task\<close>, \<open>registry_update_related_task\<close>) behaves as follows.
  If \<open>apps.get_model\<close> raises \<open>LookupError\<close>, the task returns normally and the world
  is unchanged (no index operation, no error). If the model resolves and
  \<open>model.objects.get(pk=pk)\<close> returns a record, the task is exactly one registry call
  on that fetched record: \<open>update\<close> for the first task, \<open>update_related\<close> for the
  second. If the model resolves and the fetch raises, that error leaves the task and
  the world is unchanged, so the index was never called.
\<close>

theorem deferred_tasks:
  "(get_model E al mn = Inl LookupError \<longrightarrow>
      registry_update_task E p al mn w = Returns () w
      \<and> registry_update_related_task E p al mn w = Returns () w)
   \<and> (\<forall>model obj. get_model E al mn = Inr model \<and> objects_get E model p = Inr obj \<longrightarrow>
      registry_update_task E p al mn w = registry_op (Update obj) (registry_update E obj) w
      \<and> index_calls (world_of (registry_update_task E p al mn w)) = index_calls w @ [Update obj]
      \<and> registry_update_related_task E p al mn w =
          registry_op (UpdateRelated obj) (registry_update_related E obj) w
      \<and> index_calls (world_of (registry_update_related_task E p al mn w)) =
          index_calls w @ [UpdateRelated obj])
   \<and> (\<forall>model e. get_model E al mn = Inr model \<and> objects_get E model p = Inl e \<longrightarrow>
      registry_update_task E p al mn w = Raises e w
      \<and> registry_update_related_task E p al mn w = Raises e w)"
  by (simp add: registry_update_task_def registry_update_related_task_def registry_op_world)

text \<open>
  The three cases in the sample project: the model \<open>Order\<close> does not exist, the row
  with key 7 exists, the row with key 8 does not.
\<close>

theorem deferred_tasks_witness:
  "get_model shop_env ''shop'' ''Order'' = Inl LookupError
   \<and> registry_update_task shop_env 7 ''shop'' ''Order'' empty_world = Returns () empty_world
   \<and> registry_update_related_task shop_env 7 ''shop'' ''Order'' empty_world =
       Returns () empty_world
   \<and> get_model shop_env ''shop'' ''Product'' = Inr product_class
   \<and> objects_get shop_env product_class 7 = Inr product_7
   \<and> index_calls (world_of (registry_update_task shop_env 7 ''shop'' ''Product'' empty_world)) =
       [Update product_7]
   \<and> index_calls (world_of
         (registry_update_related_task shop_env 7 ''shop'' ''Product'' empty_world)) =
       [UpdateRelated product_7]
   \<and> objects_get shop_env product_class 8 = Inl DoesNotExist
   \<and> registry_update_task shop_env 8 ''shop'' ''Product'' empty_world =
       Raises DoesNotExist empty_world
   \<and> registry_update_related_task shop_env 8 ''shop'' ''Product'' empty_world =
       Raises DoesNotExist empty_world"
  using deferred_tasks [of shop_env "''shop''" "''Order''" 7 empty_world]
    deferred_tasks [of shop_env "''shop''" "''Product''" 7 empty_world]
    deferred_tasks [of shop_env "''shop''" "''Product''" 8 empty_world]
  by (simp add: shop_env_def empty_world_def registry_op_def)

section \<open>The synchronous save handler\<close>

text \<open>
  Claim C6, as stated, at an index whose \<open>update\<close> fails: the handler calls \<open>update\<close>,
  the failure leaves the handler, and \<open>update_related\<close> is not called at all (the claim
  has it called exactly once on every save).
\<close>

theorem base_handle_save_update_fails:
  "base_handle_save failing_update_env realtime_processor product_class product_7 empty_world =
     Raises (IndexFailure ''unavailable'') (empty_world\<lparr>index_calls := [Update product_7]\<rparr>)
   \<and> count_list (index_calls (world_of
        (base_handle_save failing_update_env realtime_processor product_class product_7
           empty_world))) (UpdateRelated product_7) = 0"
  by (simp add: base_handle_save_def registry_op_def failing_update_env_def shop_env_def
      empty_world_def)

text \<open>
  Claim C6, amended. The base save handler calls the registry's \<open>update\<close> exactly once
  on the given instance and, when that call returned, \<open>update_related\<close> exactly once on
  the same instance, in this order and with no other index operation. An error of
  either call is not caught: it is the error the handler raises, and an error of
  \<open>update\<close> leaves before \<open>update_related\<close> is called. Nothing is queued.
\<close>

theorem base_handle_save_calls:
  "index_calls (world_of (base_handle_save E self sender inst w)) =
     index_calls w @ [Update inst] @
       (if snd (registry_update E inst (index w)) = None then [UpdateRelated inst] else [])
   \<and> raised (base_handle_save E self sender inst w) =
       (case snd (registry_update E inst (index w)) of
          Some e \<Rightarrow> Some e
        | None \<Rightarrow>
            snd (registry_update_related E inst (fst (registry_update E inst (index w)))))
   \<and> task_queue (world_of (base_handle_save E self sender inst w)) = task_queue w"
  by (simp add: base_handle_save_def registry_op_def split: prod.splits option.splits)

section \<open>Relation changes on the Celery processor\<close>

text \<open>
  Claim C8, as stated, at a model that is in the registry: a \<open>post_add\<close> on a Celery
  processor reaches the overridden save handler, which queues nothing (the claim has
  such events enqueue tasks).
\<close>

theorem celery_m2m_registered_model:
  "registry_contains registered_env (concrete_model (meta product_7))
   \<and> call_handle_m2m_changed registered_env celery_processor product_class product_7
        ''post_add'' empty_world = Returns () empty_world
   \<and> task_queue (world_of (call_handle_m2m_changed registered_env celery_processor
        product_class product_7 ''post_add'' empty_world)) = []"
  by (simp add: call_handle_m2m_changed_def base_handle_m2m_changed_def call_handle_save_def
      celery_handle_save_def celery_processor_def resolve_celery registered_env_def
      shop_env_def product_7_def empty_world_def)

text \<open>
  Claim C8, amended. On a Celery processor the inherited \<open>handle_m2m_changed\<close> runs
  the overridden \<open>handle_save\<close> for \<open>post_add\<close>, \<open>post_remove\<close> and \<open>post_clear\<close>:
  such an event never calls the index inline. When the instance's concrete model is in
  the registry it queues nothing and returns; when it is not, it sends
  \<open>registry_update_task\<close> and then \<open>registry_update_related_task\<close>, both queued when
  the sends are accepted, and an error of a send is not caught (it is the error the
  handler raises; the tasks accepted before it stay queued). For \<open>pre_remove\<close> and
  \<open>pre_clear\<close> it runs the inherited \<open>handle_pre_delete\<close>: the registry's
  \<open>delete_related\<close> is called inline on the instance and nothing is queued.
\<close>

theorem celery_m2m_changed:
  "(action \<in> set [''post_add'', ''post_remove'', ''post_clear''] \<longrightarrow>
      call_handle_m2m_changed E \<lparr>cls = CelerySignalProcessor, connections = c\<rparr>
          sender inst action w =
        celery_handle_save E \<lparr>cls = CelerySignalProcessor, connections = c\<rparr> sender inst w
      \<and> index_calls (world_of (call_handle_m2m_changed E
            \<lparr>cls = CelerySignalProcessor, connections = c\<rparr> sender inst action w)) =
          index_calls w
      \<and> index (world_of (call_handle_m2m_changed E
            \<lparr>cls = CelerySignalProcessor, connections = c\<rparr> sender inst action w)) = index w
      \<and> raised (call_handle_m2m_changed E
            \<lparr>cls = CelerySignalProcessor, connections = c\<rparr> sender inst action w) =
          (if registry_contains E (concrete_model (meta inst)) then None
           else case task_send E
                       (Delay A_registry_update_task (pk inst) (app_label (meta inst))
                          (cls_name (concrete_model (meta inst))))
                       (task_queue w) of
                  Some e \<Rightarrow> Some e
                | None \<Rightarrow>
                    task_send E
                      (Delay A_registry_update_related_task (pk inst) (app_label (meta inst))
                         (cls_name (concrete_model (meta inst))))
                      (task_queue w @
                         [Delay A_registry_update_task (pk inst) (app_label (meta inst))
                            (cls_name (concrete_model (meta inst)))]))
      \<and> task_queue (world_of (call_handle_m2m_changed E
            \<lparr>cls = CelerySignalProcessor, connections = c\<rparr> sender inst action w)) =
          task_queue w @
            (if registry_contains E (concrete_model (meta inst)) then []
             else case task_send E
                         (Delay A_registry_update_task (pk inst) (app_label (meta inst))
                            (cls_name (concrete_model (meta inst))))
                         (task_queue w) of
                    Some e \<Rightarrow> []
                  | None \<Rightarrow>
                      (case task_send E
                              (Delay A_registry_update_related_task (pk inst)
                                 (app_label (meta inst))
                                 (cls_name (concrete_model (meta inst))))
                              (task_queue w @
                                 [Delay A_registry_update_task (pk inst) (app_label (meta inst))
                                    (cls_name (concrete_model (meta inst)))]) of
                         Some e \<Rightarrow>
                           [Delay A_registry_update_task (pk inst) (app_label (meta inst))
                              (cls_name (concrete_model (meta inst)))]
                       | None \<Rightarrow>
                           [Delay A_registry_update_task (pk inst) (app_label (meta inst))
                              (cls_name (concrete_model (meta inst))),
                            Delay A_registry_update_related_task (pk inst)
                              (app_label (meta inst))
                              (cls_name (concrete_model (meta inst)))])))
   \<and> (action \<in> set [''pre_remove'', ''pre_clear''] \<longrightarrow>
      call_handle_m2m_changed E \<lparr>cls = CelerySignalProcessor, connections = c\<rparr>
          sender inst action w =
        base_handle_pre_delete E \<lparr>cls = CelerySignalProcessor, connections = c\<rparr> sender inst w
      \<and> index_calls (world_of (call_handle_m2m_changed E
            \<lparr>cls = CelerySignalProcessor, connections = c\<rparr> sender inst action w)) =
          index_calls w @ [DeleteRelated inst]
      \<and> task_queue (world_of (call_handle_m2m_changed E
            \<lparr>cls = CelerySignalProcessor, connections = c\<rparr> sender inst action w)) =
          task_queue w)"
proof -
  let ?self = "\<lparr>cls = CelerySignalProcessor, connections = c\<rparr>"
  have save: "call_handle_save E ?self sender inst w = celery_handle_save E ?self sender inst w"
    by (simp add: call_handle_save_def resolve_celery)
  have pre: "call_handle_pre_delete E ?self sender inst w =
      base_handle_pre_delete E ?self sender inst w"
    by (simp add: call_handle_pre_delete_def resolve_celery)
  have disp: "call_handle_m2m_changed E ?self sender inst action w =
      base_handle_m2m_changed E ?self sender inst action w"
    by (simp add: call_handle_m2m_changed_def resolve_celery)
  have post: "action \<in> set [''post_add'', ''post_remove'', ''post_clear''] \<Longrightarrow>
      base_handle_m2m_changed E ?self sender inst action w =
        celery_handle_save E ?self sender inst w"
    by (simp add: base_handle_m2m_changed_def save)
  have prea: "action \<in> set [''pre_remove'', ''pre_clear''] \<Longrightarrow>
      base_handle_m2m_changed E ?self sender inst action w =
        base_handle_pre_delete E ?self sender inst w"
    by (auto simp add: base_handle_m2m_changed_def pre)
  show ?thesis
    unfolding disp
  proof (intro conjI impI)
    assume a: "action \<in> set [''post_add'', ''post_remove'', ''post_clear'']"
    show "base_handle_m2m_changed E ?self sender inst action w =
        celery_handle_save E ?self sender inst w"
      by (rule post [OF a])
    show "index_calls (world_of (base_handle_m2m_changed E ?self sender inst action w)) =
        index_calls w"
      unfolding post [OF a]
      by (simp add: celery_handle_save_def delay_def resolve_celery Let_def
          split: option.splits)
    show "index (world_of (base_handle_m2m_changed E ?self sender inst action w)) = index w"
      unfolding post [OF a]
      by (simp add: celery_handle_save_def delay_def resolve_celery Let_def
          split: option.splits)
    show "raised (base_handle_m2m_changed E ?self sender inst action w) =
          (if registry_contains E (concrete_model (meta inst)) then None
           else case task_send E
                       (Delay A_registry_update_task (pk inst) (app_label (meta inst))
                          (cls_name (concrete_model (meta inst))))
                       (task_queue w) of
                  Some e \<Rightarrow> Some e
                | None \<Rightarrow>
                    task_send E
                      (Delay A_registry_update_related_task (pk inst) (app_label (meta inst))
                         (cls_name (concrete_model (meta inst))))
                      (task_queue w @
                         [Delay A_registry_update_task (pk inst) (app_label (meta inst))
                            (cls_name (concrete_model (meta inst)))]))"
      unfolding post [OF a]
      by (simp add: celery_handle_save_def delay_def resolve_celery Let_def
          split: option.splits)
    show "task_queue (world_of (base_handle_m2m_changed E ?self sender inst action w)) =
          task_queue w @
            (if registry_contains E (concrete_model (meta inst)) then []
             else case task_send E
                         (Delay A_registry_update_task (pk inst) (app_label (meta inst))
                            (cls_name (concrete_model (meta inst))))
                         (task_queue w) of
                    Some e \<Rightarrow> []
                  | None \<Rightarrow>
                      (case task_send E
                              (Delay A_registry_update_related_task (pk inst)
                                 (app_label (meta inst))
                                 (cls_name (concrete_model (meta inst))))
                              (task_queue w @
                                 [Delay A_registry_update_task (pk inst) (app_label (meta inst))
                                    (cls_name (concrete_model (meta inst)))]) of
                         Some e \<Rightarrow>
                           [Delay A_registry_update_task (pk inst) (app_label (meta inst))
                              (cls_name (concrete_model (meta inst)))]
                       | None \<Rightarrow>
                           [Delay A_registry_update_task (pk inst) (app_label (meta inst))
                              (cls_name (concrete_model (meta inst))),
                            Delay A_registry_update_related_task (pk inst)
                              (app_label (meta inst))
                              (cls_name (concrete_model (meta inst)))]))"
      unfolding post [OF a]
      by (simp add: celery_handle_save_def delay_def resolve_celery Let_def
          split: option.splits)
  next
    assume b: "action \<in> set [''pre_remove'', ''pre_clear'']"
    show "base_handle_m2m_changed E ?self sender inst action w =
        base_handle_pre_delete E ?self sender inst w"
      by (rule prea [OF b])
    show "index_calls (world_of (base_handle_m2m_changed E ?self sender inst action w)) =
        index_calls w @ [DeleteRelated inst]"
      unfolding prea [OF b] by (simp add: base_handle_pre_delete_def registry_op_world)
    show "task_queue (world_of (base_handle_m2m_changed E ?self sender inst action w)) =
        task_queue w"
      unfolding prea [OF b] by (simp add: base_handle_pre_delete_def registry_op_world)
  qed
qed

text \<open>
  Both phases in the sample project, where the model is not registered: with a broker
  that accepts, \<open>post_clear\<close> queues the two tasks; with a broker that cannot be
  reached it raises and queues nothing; \<open>pre_clear\<close> calls \<open>delete_related\<close>.
\<close>

theorem celery_m2m_changed_witness:
  "''post_clear'' \<in> set [''post_add'', ''post_remove'', ''post_clear'']
   \<and> task_queue (world_of (call_handle_m2m_changed shop_env celery_processor product_class
        product_7 ''post_clear'' empty_world)) =
       [Delay A_registry_update_task 7 ''shop'' ''Product'',
        Delay A_registry_update_related_task 7 ''shop'' ''Product'']
   \<and> index_calls (world_of (call_handle_m2m_changed shop_env celery_processor product_class
        product_7 ''post_clear'' empty_world)) = []
   \<and> call_handle_m2m_changed broker_down_env celery_processor product_class product_7
        ''post_clear'' empty_world =
       Raises (OperationalError ''broker unreachable'') empty_world
   \<and> ''pre_clear'' \<in> set [''pre_remove'', ''pre_clear'']
   \<and> index_calls (world_of (call_handle_m2m_changed shop_env celery_processor product_class
        product_7 ''pre_clear'' empty_world)) = [DeleteRelated product_7]
   \<and> task_queue (world_of (call_handle_m2m_changed shop_env celery_processor product_class
        product_7 ''pre_clear'' empty_world)) = []"
  using celery_m2m_changed [of "''post_clear''" shop_env "Some ''default''" product_class
      product_7 empty_world]
    celery_m2m_changed [of "''post_clear''" broker_down_env "Some ''default''" product_class
      product_7 empty_world]
    celery_m2m_changed [of "''pre_clear''" shop_env "Some ''default''" product_class
      product_7 empty_world]
  by (simp add: celery_processor_def shop_env_def broker_down_env_def empty_world_def
      product_7_def product_class_def call_handle_m2m_changed_def base_handle_m2m_changed_def
      call_handle_save_def call_handle_pre_delete_def celery_handle_save_def delay_def
      base_handle_pre_delete_def registry_op_def resolve_celery)

section \<open>Subscriptions\<close>

text \<open>
  Claim C7. On a processor composed with the mixin (real-time or Celery), \<open>setup\<close>
  connects, in this order, \<open>self.handle_save\<close> to \<open>post_save\<close>, \<open>self.handle_delete\<close>
  to \<open>post_delete\<close>, \<open>self.handle_m2m_changed\<close> to \<open>m2m_changed\<close> and
  \<open>self.handle_pre_delete\<close> to \<open>pre_delete\<close>, and does nothing else; \<open>teardown\<close>
  disconnects the same four bound methods from the same four signals and does nothing
  else. The pairs \<open>teardown\<close> disconnects are exactly the pairs \<open>setup\<close> connects. (On
  the Celery processor the save receiver is the overriding \<open>handle_save\<close>.)
\<close>

theorem mixin_setup_teardown:
  "mixin_setup \<lparr>cls = RealTimeSignalProcessor, connections = c\<rparr> w =
     Returns () (w\<lparr>signal_calls := signal_calls w @
       [Connect post_save
          (\<lparr>cls = RealTimeSignalProcessor, connections = c\<rparr>, BaseSignalProcessor, A_handle_save),
        Connect post_delete
          (\<lparr>cls = RealTimeSignalProcessor, connections = c\<rparr>, BaseSignalProcessor, A_handle_delete),
        Connect m2m_changed
          (\<lparr>cls = RealTimeSignalProcessor, connections = c\<rparr>, BaseSignalProcessor,
           A_handle_m2m_changed),
        Connect pre_delete
          (\<lparr>cls = RealTimeSignalProcessor, connections = c\<rparr>, BaseSignalProcessor,
           A_handle_pre_delete)]\<rparr>)
   \<and> mixin_teardown \<lparr>cls = RealTimeSignalProcessor, connections = c\<rparr> w =
     Returns () (w\<lparr>signal_calls := signal_calls w @
       [Disconnect post_save
          (\<lparr>cls = RealTimeSignalProcessor, connections = c\<rparr>, BaseSignalProcessor, A_handle_save),
        Disconnect post_delete
          (\<lparr>cls = RealTimeSignalProcessor, connections = c\<rparr>, BaseSignalProcessor, A_handle_delete),
        Disconnect m2m_changed
          (\<lparr>cls = RealTimeSignalProcessor, connections = c\<rparr>, BaseSignalProcessor,
           A_handle_m2m_changed),
        Disconnect pre_delete
          (\<lparr>cls = RealTimeSignalProcessor, connections = c\<rparr>, BaseSignalProcessor,
           A_handle_pre_delete)]\<rparr>)
   \<and> mixin_setup \<lparr>cls = CelerySignalProcessor, connections = c\<rparr> w =
     Returns () (w\<lparr>signal_calls := signal_calls w @
       [Connect post_save
          (\<lparr>cls = CelerySignalProcessor, connections = c\<rparr>, CelerySignalProcessor, A_handle_save),
        Connect post_delete
          (\<lparr>cls = CelerySignalProcessor, connections = c\<rparr>, BaseSignalProcessor, A_handle_delete),
        Connect m2m_changed
          (\<lparr>cls = CelerySignalProcessor, connections = c\<rparr>, BaseSignalProcessor,
           A_handle_m2m_changed),
        Connect pre_delete
          (\<lparr>cls = CelerySignalProcessor, connections = c\<rparr>, BaseSignalProcessor,
           A_handle_pre_delete)]\<rparr>)
   \<and> mixin_teardown \<lparr>cls = CelerySignalProcessor, connections = c\<rparr> w =
     Returns () (w\<lparr>signal_calls := signal_calls w @
       [Disconnect post_save
          (\<lparr>cls = CelerySignalProcessor, connections = c\<rparr>, CelerySignalProcessor, A_handle_save),
        Disconnect post_delete
          (\<lparr>cls = CelerySignalProcessor, connections = c\<rparr>, BaseSignalProcessor, A_handle_delete),
        Disconnect m2m_changed
          (\<lparr>cls = CelerySignalProcessor, connections = c\<rparr>, BaseSignalProcessor,
           A_handle_m2m_changed),
        Disconnect pre_delete
          (\<lparr>cls = CelerySignalProcessor, connections = c\<rparr>, BaseSignalProcessor,
           A_handle_pre_delete)]\<rparr>)
   \<and> disconnects (signal_calls (world_of
         (mixin_teardown \<lparr>cls = RealTimeSignalProcessor, connections = c\<rparr>
            (w\<lparr>signal_calls := []\<rparr>)))) =
       connects (signal_calls (world_of
         (mixin_setup \<lparr>cls = RealTimeSignalProcessor, connections = c\<rparr>
            (w\<lparr>signal_calls := []\<rparr>))))
   \<and> disconnects (signal_calls (world_of
         (mixin_teardown \<lparr>cls = CelerySignalProcessor, connections = c\<rparr>
            (w\<lparr>signal_calls := []\<rparr>)))) =
       connects (signal_calls (world_of
         (mixin_setup \<lparr>cls = CelerySignalProcessor, connections = c\<rparr>
            (w\<lparr>signal_calls := []\<rparr>))))"
  by (simp add: mixin_setup_def mixin_teardown_def signal_connect_def signal_disconnect_def
      resolve_realtime resolve_celery)

text \<open>
  Claim C9. Constructing a processor of any of the three classes returns an object of
  that class with \<open>connections\<close> set to the argument, and the world it leaves is the
  world \<open>self.setup()\<close> leaves when run on that object. For the base class that is the
  world unchanged; for the real-time and the Celery processor \<open>setup\<close> is the mixin's,
  so the four receivers are connected by the construction itself.
\<close>

theorem construct_runs_setup:
  "construct BaseSignalProcessor c w =
     Returns \<lparr>cls = BaseSignalProcessor, connections = Some c\<rparr> w
   \<and> construct RealTimeSignalProcessor c w =
     Returns \<lparr>cls = RealTimeSignalProcessor, connections = Some c\<rparr>
       (world_of (mixin_setup \<lparr>cls = RealTimeSignalProcessor, connections = Some c\<rparr> w))
   \<and> construct CelerySignalProcessor c w =
     Returns \<lparr>cls = CelerySignalProcessor, connections = Some c\<rparr>
       (world_of (mixin_setup \<lparr>cls = CelerySignalProcessor, connections = Some c\<rparr> w))
   \<and> world_of (construct BaseSignalProcessor c w) =
       world_of (call_setup \<lparr>cls = BaseSignalProcessor, connections = Some c\<rparr> w)
   \<and> world_of (construct RealTimeSignalProcessor c w) =
       world_of (call_setup \<lparr>cls = RealTimeSignalProcessor, connections = Some c\<rparr> w)
   \<and> world_of (construct CelerySignalProcessor c w) =
       world_of (call_setup \<lparr>cls = CelerySignalProcessor, connections = Some c\<rparr> w)
   \<and> connects (signal_calls (world_of (construct RealTimeSignalProcessor c
        (w\<lparr>signal_calls := []\<rparr>)))) =
       [(post_save, \<lparr>cls = RealTimeSignalProcessor, connections = Some c\<rparr>,
           BaseSignalProcessor, A_handle_save),
        (post_delete, \<lparr>cls = RealTimeSignalProcessor, connections = Some c\<rparr>,
           BaseSignalProcessor, A_handle_delete),
        (m2m_changed, \<lparr>cls = RealTimeSignalProcessor, connections = Some c\<rparr>,
           BaseSignalProcessor, A_handle_m2m_changed),
        (pre_delete, \<lparr>cls = RealTimeSignalProcessor, connections = Some c\<rparr>,
           BaseSignalProcessor, A_handle_pre_delete)]
   \<and> connects (signal_calls (world_of (construct CelerySignalProcessor c
        (w\<lparr>signal_calls := []\<rparr>)))) =
       [(post_save, \<lparr>cls = CelerySignalProcessor, connections = Some c\<rparr>,
           CelerySignalProcessor, A_handle_save),
        (post_delete, \<lparr>cls = CelerySignalProcessor, connections = Some c\<rparr>,
           BaseSignalProcessor, A_handle_delete),
        (m2m_changed, \<lparr>cls = CelerySignalProcessor, connections = Some c\<rparr>,
           BaseSignalProcessor, A_handle_m2m_changed),
        (pre_delete, \<lparr>cls = CelerySignalProcessor, connections = Some c\<rparr>,
           BaseSignalProcessor, A_handle_pre_delete)]"
  by (simp add: construct_def base_init_def call_setup_def base_setup_def mixin_setup_def
      signal_connect_def resolve_base resolve_realtime resolve_celery Let_def)

end
